theory Spec2Isabelle
  imports Main
begin

section \<open>The payment record (model.go)\<close>

text \<open>
  The Go struct \<open>Payment\<close> and its anonymous nested structs, one record per struct;
  the record of the anonymous struct behind field \<open>F\<close> is called \<open>F_struct\<close>.
  Go strings are \<open>string\<close>; the Go \<open>int\<close> fields are only stored and returned, never
  computed with, and are \<open>int\<close>. Field names that occur in several of the nested structs
  carry the struct's initials as a prefix; all other names are those of the source.
  The slice \<open>SenderCharges\<close> is a list: the record model does not tell a nil slice from
  an empty one there.
\<close>

record BeneficiaryParty_struct =
  bp_AccountName :: string
  bp_AccountNumber :: string
  bp_AccountNumberCode :: string
  AccountType :: int
  bp_Address :: string
  bp_BankID :: string
  bp_BankIDCode :: string
  bp_Name :: string

record SenderCharge_struct =
  sc_Amount :: string
  sc_Currency :: string

record ChargesInformation_struct =
  BearerCode :: string
  SenderCharges :: "SenderCharge_struct list"
  ReceiverChargesAmount :: string
  ReceiverChargesCurrency :: string

record DebtorParty_struct =
  dp_AccountName :: string
  dp_AccountNumber :: string
  dp_AccountNumberCode :: string
  dp_Address :: string
  dp_BankID :: string
  dp_BankIDCode :: string
  dp_Name :: string

record Fx_struct =
  ContractReference :: string
  ExchangeRate :: string
  OriginalAmount :: string
  OriginalCurrency :: string

record SponsorParty_struct =
  sp_AccountNumber :: string
  sp_BankID :: string
  sp_BankIDCode :: string

record Attributes_struct =
  Amount :: string
  BeneficiaryParty :: BeneficiaryParty_struct
  ChargesInformation :: ChargesInformation_struct
  Currency :: string
  DebtorParty :: DebtorParty_struct
  EndToEndReference :: string
  Fx :: Fx_struct
  NumericReference :: string
  PaymentID :: string
  PaymentPurpose :: string
  PaymentScheme :: string
  PaymentType :: string
  ProcessingDate :: string
  Reference :: string
  SchemePaymentSubType :: string
  SchemePaymentType :: string
  SponsorParty :: SponsorParty_struct

record Payment =
  Type :: string
  ID :: string
  Version :: int
  OrganisationID :: string
  Attributes :: Attributes_struct

text \<open>
  \<open>Payments\<close>: the slice \<open>P\<close> can be the nil slice (\<open>None\<close>, which the JSON encoder
  writes as \<open>null\<close>) or a slice with elements (\<open>Some xs\<close>, written as an array).
\<close>

record Links_struct =
  Self :: string

record Payments =
  P :: "Payment list option"
  Links :: Links_struct

text \<open>The zero value of each struct, as \<open>var payment Payment\<close> creates it.\<close>

definition zero_Attributes :: Attributes_struct where
  "zero_Attributes =
     \<lparr>Amount = [],
      BeneficiaryParty = \<lparr>bp_AccountName = [], bp_AccountNumber = [],
        bp_AccountNumberCode = [], AccountType = 0, bp_Address = [], bp_BankID = [],
        bp_BankIDCode = [], bp_Name = []\<rparr>,
      ChargesInformation = \<lparr>BearerCode = [], SenderCharges = [],
        ReceiverChargesAmount = [], ReceiverChargesCurrency = []\<rparr>,
      Currency = [],
      DebtorParty = \<lparr>dp_AccountName = [], dp_AccountNumber = [],
        dp_AccountNumberCode = [], dp_Address = [], dp_BankID = [], dp_BankIDCode = [],
        dp_Name = []\<rparr>,
      EndToEndReference = [],
      Fx = \<lparr>ContractReference = [], ExchangeRate = [], OriginalAmount = [],
        OriginalCurrency = []\<rparr>,
      NumericReference = [], PaymentID = [], PaymentPurpose = [], PaymentScheme = [],
      PaymentType = [], ProcessingDate = [], Reference = [], SchemePaymentSubType = [],
      SchemePaymentType = [],
      SponsorParty = \<lparr>sp_AccountNumber = [], sp_BankID = [], sp_BankIDCode = []\<rparr>\<rparr>"

definition zero_Payment :: Payment where
  "zero_Payment = \<lparr>Type = [], ID = [], Version = 0, OrganisationID = [],
     Attributes = zero_Attributes\<rparr>"

definition zero_Payments :: Payments where
  "zero_Payments = \<lparr>P = None, Links = \<lparr>Self = []\<rparr>\<rparr>"

section \<open>The document store\<close>

text \<open>
  Go's \<open>error\<close> values. An error is made either by this program with \<open>errors.New\<close>
  or by the store driver; \<open>Error\<close> is the message of either, as \<open>err.Error()\<close> gives it.
\<close>

datatype error = errors_New string | mgo_error string

fun Error :: "error \<Rightarrow> string" where
  "Error (errors_New m) = m"
| "Error (mgo_error m) = m"

text \<open>
  The handle \<open>db *mgo.Database\<close> with the one collection \<open>COLLECTION\<close> behind it.
  \<open>docs\<close> are the stored records in the store's own order, keyed by \<open>ID\<close> (the bson
  tag \<open>_id\<close>); the type does not force the keys to be distinct. \<open>faults\<close> is the
  script of what happens to the coming requests to the store, one entry per request:
  \<open>Some m\<close> makes the request fail with the driver error \<open>m\<close> (a lost connection, a
  failed query), \<open>None\<close> lets it through, and once the script is used up every request
  goes through. \<open>requests\<close> records every request sent to the store, oldest first.
\<close>

datatype request =
    FindAll
  | FindCount string
  | FindOne string
  | RemoveOne string
  | InsertOne Payment
  | UpdateOne string Payment

record Database =
  docs :: "Payment list"
  faults :: "string option list"
  requests :: "request list"

definition sent :: "request \<Rightarrow> Database \<Rightarrow> Database" where
  "sent r db = db\<lparr>faults := tl (faults db), requests := requests db @ [r]\<rparr>"

definition send :: "request \<Rightarrow> Database \<Rightarrow> string option \<times> Database" where
  "send r db = ((case faults db of [] \<Rightarrow> None | f # fs \<Rightarrow> f), sent r db)"

text \<open>\<open>answers n db\<close>: the store lets the coming \<open>n\<close> requests through.\<close>

definition answers :: "nat \<Rightarrow> Database \<Rightarrow> bool" where
  "answers n db = list_all (\<lambda>f. f = None) (take n (faults db))"

definition matching :: "string \<Rightarrow> Payment list \<Rightarrow> Payment list" where
  "matching i ds = filter (\<lambda>d. ID d = i) ds"

fun remove_first :: "string \<Rightarrow> Payment list \<Rightarrow> Payment list" where
  "remove_first i [] = []"
| "remove_first i (d # ds) = (if ID d = i then ds else d # remove_first i ds)"

fun replace_first :: "string \<Rightarrow> Payment \<Rightarrow> Payment list \<Rightarrow> Payment list" where
  "replace_first i p [] = []"
| "replace_first i p (d # ds) = (if ID d = i then p # ds else d # replace_first i p ds)"

text \<open>
  Modelled from the spec: the store collaborator, which is the driver package
  \<open>gopkg.in/mgo.v2\<close> and not part of the repository. The six operations below follow the
  store contract of the spec (section 6): \<open>findAll\<close>, \<open>countByID\<close>, \<open>findByID\<close>,
  \<open>removeByID\<close> (which does not itself fail when nothing matches), \<open>insert\<close> (which
  fails when the connection is unavailable or the write is rejected: the store's own
  uniqueness constraint on the key, section 5) and \<open>updateByID\<close> (a full replace).
  Records are stored and returned as they are: the encoding to and from the store's
  document format is taken to round-trip every field. Each operation is one request.
  A remove or an update under a key that selects nothing leaves the records as they
  are; the handlers send them only after the count under the key was positive.
\<close>

definition mgo_All :: "Database \<Rightarrow> (error + Payment list) \<times> Database" where
  "mgo_All db =
     (case send FindAll db of
        (Some m, db') \<Rightarrow> (Inl (mgo_error m), db')
      | (None, db') \<Rightarrow> (Inr (docs db'), db'))"

definition mgo_Count :: "string \<Rightarrow> Database \<Rightarrow> (error + int) \<times> Database" where
  "mgo_Count i db =
     (case send (FindCount i) db of
        (Some m, db') \<Rightarrow> (Inl (mgo_error m), db')
      | (None, db') \<Rightarrow> (Inr (int (length (matching i (docs db')))), db'))"

definition mgo_One :: "string \<Rightarrow> Database \<Rightarrow> (error + Payment) \<times> Database" where
  "mgo_One i db =
     (case send (FindOne i) db of
        (Some m, db') \<Rightarrow> (Inl (mgo_error m), db')
      | (None, db') \<Rightarrow>
          (case matching i (docs db') of
             [] \<Rightarrow> (Inl (mgo_error ''not found''), db')
           | d # ds \<Rightarrow> (Inr d, db')))"

definition mgo_Remove :: "string \<Rightarrow> Database \<Rightarrow> error option \<times> Database" where
  "mgo_Remove i db =
     (case send (RemoveOne i) db of
        (Some m, db') \<Rightarrow> (Some (mgo_error m), db')
      | (None, db') \<Rightarrow> (None, db'\<lparr>docs := remove_first i (docs db')\<rparr>))"

definition mgo_Insert :: "Payment \<Rightarrow> Database \<Rightarrow> error option \<times> Database" where
  "mgo_Insert p db =
     (case send (InsertOne p) db of
        (Some m, db') \<Rightarrow> (Some (mgo_error m), db')
      | (None, db') \<Rightarrow>
          if matching (ID p) (docs db') \<noteq> []
          then (Some (mgo_error ''duplicate key error''), db')
          else (None, db'\<lparr>docs := docs db' @ [p]\<rparr>))"

definition mgo_UpdateId :: "string \<Rightarrow> Payment \<Rightarrow> Database \<Rightarrow> error option \<times> Database" where
  "mgo_UpdateId i p db =
     (case send (UpdateOne i p) db of
        (Some m, db') \<Rightarrow> (Some (mgo_error m), db')
      | (None, db') \<Rightarrow> (None, db'\<lparr>docs := replace_first i p (docs db')\<rparr>))"

section \<open>The lifecycle manager (model.go)\<close>

text \<open>
  A Go function that returns \<open>(T, error)\<close> and changes the store returns
  \<open>(result, database)\<close> here. \<open>error option\<close> is a Go \<open>error\<close>, \<open>None\<close> being nil.
\<close>

definition checkEmptyPaymentID :: "Payment \<Rightarrow> bool" where
  "checkEmptyPaymentID p = (if ID p = [] then True else False)"

text \<open>
  \<open>returnPaymentCount\<close> returns \<open>(-1, err)\<close> or \<open>(count, nil)\<close>, and
  \<open>returnPaymentCountAndQuery\<close> returns \<open>(nil, -1, err)\<close> or \<open>(query, count, nil)\<close>:
  \<open>Inl err\<close> stands for the first and \<open>Inr\<close> for the second; every caller tests
  \<open>err\<close> before it reads anything else. The query object is the key it selects.
\<close>

definition returnPaymentCount :: "Database \<Rightarrow> Payment \<Rightarrow> (error + int) \<times> Database" where
  "returnPaymentCount db p =
     (case mgo_Count (ID p) db of
        (Inl err, db') \<Rightarrow> (Inl err, db')
      | (Inr count, db') \<Rightarrow> (Inr count, db'))"

definition returnPaymentCountAndQuery ::
  "Database \<Rightarrow> Payment \<Rightarrow> (error + string \<times> int) \<times> Database" where
  "returnPaymentCountAndQuery db p =
     (case mgo_Count (ID p) db of
        (Inl err, db') \<Rightarrow> (Inl err, db')
      | (Inr count, db') \<Rightarrow> (Inr (ID p, count), db'))"

definition modelGetPayments ::
  "Payment \<Rightarrow> Database \<Rightarrow> (Payment list option \<times> error option) \<times> Database" where
  "modelGetPayments p db =
     (case mgo_All db of
        (Inl err, db') \<Rightarrow> ((Some [], Some err), db')
      | (Inr payments, db') \<Rightarrow> ((Some payments, None), db'))"

definition modelGetPayment ::
  "Payment \<Rightarrow> Database \<Rightarrow> (int \<times> Payment \<times> error option) \<times> Database" where
  "modelGetPayment p db =
     (if checkEmptyPaymentID p = True
      then ((- 1, zero_Payment, Some (errors_New ''No Payment ID specified'')), db)
      else
        (case returnPaymentCountAndQuery db p of
           (Inl err, db1) \<Rightarrow> ((- 1, zero_Payment, Some err), db1)
         | (Inr (query, count), db1) \<Rightarrow>
             if count = 0
             then ((count, zero_Payment, Some (errors_New ''Payment not found'')), db1)
             else if count > 1
             then ((- 1, zero_Payment,
                    Some (errors_New ''More than one payment returned per ID'')), db1)
             else
               (case mgo_One query db1 of
                  (Inl ignored, db2) \<Rightarrow> ((count, zero_Payment, None), db2)
                | (Inr payment, db2) \<Rightarrow> ((count, payment, None), db2))))"

definition modelDeletePaymentValidCheck :: "Payment \<Rightarrow> Database \<Rightarrow> error option \<times> Database" where
  "modelDeletePaymentValidCheck p db =
     (if checkEmptyPaymentID p = True
      then (Some (errors_New ''Cannot delete a payment without a Payment ID specified''), db)
      else
        (case returnPaymentCount db p of
           (Inl err, db') \<Rightarrow> (Some err, db')
         | (Inr count, db') \<Rightarrow>
             if count = 0
             then (Some (errors_New ''A payment with this Payment ID doesn't exists''), db')
             else (None, db')))"

definition modelDeletePayment :: "Payment \<Rightarrow> Database \<Rightarrow> error option \<times> Database" where
  "modelDeletePayment p db = mgo_Remove (ID p) db"

definition modelCreatePaymentValidCheck :: "Payment \<Rightarrow> Database \<Rightarrow> error option \<times> Database" where
  "modelCreatePaymentValidCheck p db =
     (if checkEmptyPaymentID p = True
      then (Some (errors_New ''Cannot add a payment without a Payment ID specified''), db)
      else
        (case returnPaymentCount db p of
           (Inl err, db') \<Rightarrow> (Some err, db')
         | (Inr count, db') \<Rightarrow>
             if count > 0
             then (Some (errors_New ''A payment with this Payment ID already exists''), db')
             else (None, db')))"

definition modelCreatePayment :: "Payment \<Rightarrow> Database \<Rightarrow> error option \<times> Database" where
  "modelCreatePayment p db = mgo_Insert p db"

definition modelUpdatePaymentValidCheck :: "Payment \<Rightarrow> Database \<Rightarrow> error option \<times> Database" where
  "modelUpdatePaymentValidCheck p db =
     (if checkEmptyPaymentID p = True
      then (Some (errors_New ''Cannot update a payment without a Payment ID specified''), db)
      else
        (case returnPaymentCount db p of
           (Inl err, db') \<Rightarrow> (Some err, db')
         | (Inr count, db') \<Rightarrow>
             if count = 0
             then (Some (errors_New ''A payment with this Payment ID does not exist''), db')
             else (None, db')))"

definition modelUpdatePayment :: "Payment \<Rightarrow> Database \<Rightarrow> error option \<times> Database" where
  "modelUpdatePayment p db = mgo_UpdateId (ID p) p db"

section \<open>The request dispatcher (server.go)\<close>

text \<open>
  What a handler writes to the \<open>http.ResponseWriter\<close>: the status code and the value
  that \<open>json.Marshal\<close> is given. A \<open>map[string]string\<close> with its one entry is an
  association list.
\<close>

datatype Payload =
    PaymentJSON Payment
  | PaymentsJSON Payments
  | MapJSON "(string \<times> string) list"

record Response =
  code :: int
  body :: Payload

definition StatusOK :: int where "StatusOK = 200"
definition StatusCreated :: int where "StatusCreated = 201"
definition StatusBadRequest :: int where "StatusBadRequest = 400"
definition StatusNotFound :: int where "StatusNotFound = 404"
definition StatusInternalServerError :: int where "StatusInternalServerError = 500"

definition respondWithJSON :: "int \<Rightarrow> Payload \<Rightarrow> Response" where
  "respondWithJSON c v = \<lparr>code = c, body = v\<rparr>"

definition respondWithError :: "int \<Rightarrow> string \<Rightarrow> Response" where
  "respondWithError c message = respondWithJSON c (MapJSON [(''error'', message)])"

text \<open>
  Modelled from the spec: the transport collaborator that decodes a request body into
  the record (\<open>encoding/json\<close>, not part of the repository). A body is either
  \<open>Malformed\<close> (it fails to decode into the record shape) or a JSON object:
  \<open>Object i q\<close> has the identifier member \<open>i\<close> (\<open>None\<close> when the object has none) and
  its other members are the fields of \<open>q\<close>, the \<open>ID\<close> of \<open>q\<close> being of no account.
  \<open>Decode b p\<close> decodes into a record \<open>p\<close> that is zero in every field but \<open>ID\<close>, as it
  is at both calls: the members of the object overwrite their fields and a field without
  a member keeps the value it had. The result is \<open>None\<close> when \<open>Decode\<close> returns an error
  (the handlers do not look at the error) and the decoded record otherwise.
\<close>

datatype Body = Malformed | Object "string option" Payment

definition Decode :: "Body \<Rightarrow> Payment \<Rightarrow> Payment option" where
  "Decode b p =
     (case b of
        Malformed \<Rightarrow> None
      | Object i q \<Rightarrow> Some (q\<lparr>ID := (case i of None \<Rightarrow> ID p | Some j \<Rightarrow> j)\<rparr>))"

text \<open>
  The five handlers. \<open>server.DB\<close> is the database passed in and returned; the path
  variable \<open>vars["id"]\<close> and the request body are arguments.
\<close>

definition getPayments :: "Database \<Rightarrow> Response \<times> Database" where
  "getPayments db =
     (case modelGetPayments zero_Payment db of
        ((payment, Some err), db') \<Rightarrow>
          (respondWithError StatusInternalServerError (Error err), db')
      | ((payment, None), db') \<Rightarrow>
          (respondWithJSON StatusOK
             (PaymentsJSON (zero_Payments
                \<lparr>P := payment,
                 Links := (Links zero_Payments)
                   \<lparr>Self := ''https://api.test.form3.tech/v1/payments''\<rparr>\<rparr>)), db'))"

definition createPayment :: "Body \<Rightarrow> Database \<Rightarrow> Response \<times> Database" where
  "createPayment b db =
     (case Decode b zero_Payment of
        None \<Rightarrow> (respondWithError StatusBadRequest ''Invalid payload request'', db)
      | Some p \<Rightarrow>
          (case modelCreatePaymentValidCheck p db of
             (Some err, db1) \<Rightarrow> (respondWithError StatusBadRequest (Error err), db1)
           | (None, db1) \<Rightarrow>
               (case modelCreatePayment p db1 of
                  (Some err, db2) \<Rightarrow>
                    (respondWithError StatusInternalServerError (Error err), db2)
                | (None, db2) \<Rightarrow>
                    (respondWithJSON StatusCreated (PaymentJSON p), db2))))"

definition getPayment :: "string \<Rightarrow> Database \<Rightarrow> Response \<times> Database" where
  "getPayment vars_id db =
     (case modelGetPayment (zero_Payment\<lparr>ID := vars_id\<rparr>) db of
        ((count, payment, Some err), db') \<Rightarrow>
          if count < 0
          then (respondWithError StatusInternalServerError (Error err), db')
          else if count = 0
          then (respondWithError StatusNotFound (Error err), db')
          else (respondWithJSON StatusOK (PaymentJSON payment), db')
      | ((count, payment, None), db') \<Rightarrow>
          (respondWithJSON StatusOK (PaymentJSON payment), db'))"

definition updatePayment :: "string \<Rightarrow> Body \<Rightarrow> Database \<Rightarrow> Response \<times> Database" where
  "updatePayment vars_id b db =
     (case Decode b (zero_Payment\<lparr>ID := vars_id\<rparr>) of
        None \<Rightarrow> (respondWithError StatusBadRequest ''Invalid request payload'', db)
      | Some p \<Rightarrow>
          (case modelUpdatePaymentValidCheck p db of
             (Some err, db1) \<Rightarrow> (respondWithError StatusNotFound (Error err), db1)
           | (None, db1) \<Rightarrow>
               (case modelUpdatePayment p db1 of
                  (Some err, db2) \<Rightarrow>
                    (respondWithError StatusInternalServerError (Error err), db2)
                | (None, db2) \<Rightarrow>
                    (respondWithJSON StatusOK (PaymentJSON p), db2))))"

definition deletePayment :: "string \<Rightarrow> Database \<Rightarrow> Response \<times> Database" where
  "deletePayment vars_id db =
     (case modelDeletePaymentValidCheck (zero_Payment\<lparr>ID := vars_id\<rparr>) db of
        (Some err, db1) \<Rightarrow> (respondWithError StatusNotFound (Error err), db1)
      | (None, db1) \<Rightarrow>
          (case modelDeletePayment (zero_Payment\<lparr>ID := vars_id\<rparr>) db1 of
             (Some err, db2) \<Rightarrow>
               (respondWithError StatusInternalServerError (Error err), db2)
           | (None, db2) \<Rightarrow>
               (respondWithJSON StatusOK (MapJSON [(''result'', ''success'')]), db2)))"

section \<open>The test payloads (main_test.go)\<close>

text \<open>
  The records that the two JSON payloads of the test suite decode to. \<open>payload2\<close> is
  \<open>payload\<close> with the amount changed to 121.00 and the debtor's account name changed
  to Brown Blue. \<open>empty_store\<close> is the collection after \<open>clearTable\<close>, with a store
  that lets every request through.
\<close>

definition payload :: Payment where
  "payload =
     \<lparr>Type = ''Payment'',
      ID = ''4ee3a8d8-ca7b-4290-a52c-dd5b6165ec43'',
      Version = 0,
      OrganisationID = ''743d5b63-8e6f-432e-a8fa-c5d8d2ee5fcb'',
      Attributes =
        \<lparr>Amount = ''100.21'',
         BeneficiaryParty =
           \<lparr>bp_AccountName = ''W Owens'', bp_AccountNumber = ''31926819'',
            bp_AccountNumberCode = ''BBAN'', AccountType = 0,
            bp_Address = ''1 The Beneficiary Localtown SE2'', bp_BankID = ''403000'',
            bp_BankIDCode = ''GBDSC'', bp_Name = ''Wilfred Jeremiah Owens''\<rparr>,
         ChargesInformation =
           \<lparr>BearerCode = ''SHAR'',
            SenderCharges =
              [\<lparr>sc_Amount = ''5.00'', sc_Currency = ''GBP''\<rparr>,
               \<lparr>sc_Amount = ''10.00'', sc_Currency = ''USD''\<rparr>],
            ReceiverChargesAmount = ''1.00'', ReceiverChargesCurrency = ''USD''\<rparr>,
         Currency = ''GBP'',
         DebtorParty =
           \<lparr>dp_AccountName = ''EJ Brown Black'',
            dp_AccountNumber = ''GB29XABC10161234567801'',
            dp_AccountNumberCode = ''IBAN'',
            dp_Address = ''10 Debtor Crescent Sourcetown NE1'', dp_BankID = ''203301'',
            dp_BankIDCode = ''GBDSC'', dp_Name = ''Emelia Jane Brown''\<rparr>,
         EndToEndReference = ''Wil piano Jan'',
         Fx = \<lparr>ContractReference = ''FX123'', ExchangeRate = ''2.00000'',
            OriginalAmount = ''200.42'', OriginalCurrency = ''USD''\<rparr>,
         NumericReference = ''1002001'',
         PaymentID = ''123456789012345678'',
         PaymentPurpose = ''Paying for goods/services'',
         PaymentScheme = ''FPS'',
         PaymentType = ''Credit'',
         ProcessingDate = ''2017-01-18'',
         Reference = ''Payment for Em's piano lessons'',
         SchemePaymentSubType = ''InternetBanking'',
         SchemePaymentType = ''ImmediatePayment'',
         SponsorParty = \<lparr>sp_AccountNumber = ''56781234'', sp_BankID = ''123123'',
            sp_BankIDCode = ''GBDSC''\<rparr>\<rparr>\<rparr>"

definition payload2 :: Payment where
  "payload2 =
     payload\<lparr>Attributes := (Attributes payload)
       \<lparr>Amount := ''121.00'',
        DebtorParty := (DebtorParty (Attributes payload))
          \<lparr>dp_AccountName := ''EJ Brown Blue''\<rparr>\<rparr>\<rparr>"

definition empty_store :: Database where
  "empty_store = \<lparr>docs = [], faults = [], requests = []\<rparr>"

section \<open>Facts about the store\<close>

text \<open>The request script, and the records that a key selects.\<close>

lemma docs_sent [simp]: "docs (sent r db) = docs db"
  by (simp add: sent_def)

lemma requests_sent [simp]: "requests (sent r db) = requests db @ [r]"
  by (simp add: sent_def)

lemma faults_sent [simp]: "faults (sent r db) = tl (faults db)"
  by (simp add: sent_def)

lemma send_answers: "answers n db \<Longrightarrow> 0 < n \<Longrightarrow> send r db = (None, sent r db)"
  by (cases n; cases "faults db") (simp_all add: answers_def send_def)

lemma answers_sent: "answers n db \<Longrightarrow> answers (n - 1) (sent r db)"
  by (cases n; cases "faults db") (simp_all add: answers_def)

lemma send_fault: "faults db = Some m # fs \<Longrightarrow> send r db = (Some m, sent r db)"
  by (simp add: send_def)

lemma answers_Nil: "faults db = [] \<Longrightarrow> answers n db"
  by (simp add: answers_def)

lemma answers_None: "faults db = None # fs \<Longrightarrow> answers (Suc 0) db"
  by (simp add: answers_def)

lemma matching_absent: "i \<notin> set (map ID ds) \<Longrightarrow> matching i ds = []"
  by (induction ds) (auto simp: matching_def)

lemma matching_present: "i \<in> set (map ID ds) \<Longrightarrow> matching i ds \<noteq> []"
  by (induction ds) (auto simp: matching_def)

lemma matching_Nil_iff: "matching i ds = [] \<longleftrightarrow> i \<notin> set (map ID ds)"
  using matching_absent matching_present by blast


lemma matching_distinct:
  "distinct (map ID ds) \<Longrightarrow> i \<in> set (map ID ds) \<Longrightarrow> \<exists>d. matching i ds = [d]"
proof (induction ds)
  case Nil
  then show ?case by simp
next
  case (Cons a ds)
  show ?case
  proof (cases "ID a = i")
    case True
    then have "i \<notin> set (map ID ds)" using Cons.prems by auto
    then have "matching i ds = []" by (rule matching_absent)
    then show ?thesis using True by (simp add: matching_def)
  next
    case False
    then show ?thesis using Cons by (auto simp: matching_def)
  qed
qed

lemma map_ID_replace_first: "map ID (replace_first (ID p) p ds) = map ID ds"
  by (induction ds) auto


lemma matching_replace_first_other:
  "j \<noteq> ID p \<Longrightarrow> matching j (replace_first (ID p) p ds) = matching j ds"
  by (induction ds) (auto simp: matching_def)

lemma set_remove_first: "set (remove_first i ds) \<subseteq> set ds"
  by (induction ds) auto

lemma remove_first_absent:
  "distinct (map ID ds) \<Longrightarrow> i \<notin> set (map ID (remove_first i ds))"
  by (induction ds) auto

lemma distinct_remove_first: "distinct (map ID ds) \<Longrightarrow> distinct (map ID (remove_first i ds))"
proof (induction ds)
  case Nil
  then show ?case by simp
next
  case (Cons d ds)
  have "ID d \<notin> ID ` set (remove_first i ds)"
    using Cons.prems set_remove_first [of i ds] by auto
  with Cons show ?case by simp
qed


text \<open>What each store operation returns when it is let through, and when it fails.\<close>

lemma count_answers:
  "answers n db \<Longrightarrow> 0 < n \<Longrightarrow>
   mgo_Count i db = (Inr (int (length (matching i (docs db)))), sent (FindCount i) db)"
  by (simp add: mgo_Count_def send_answers)

lemma count_fault:
  "faults db = Some m # fs \<Longrightarrow> mgo_Count i db = (Inl (mgo_error m), sent (FindCount i) db)"
  by (simp add: mgo_Count_def send_fault)

lemma returnPaymentCount_answers:
  "answers n db \<Longrightarrow> 0 < n \<Longrightarrow>
   returnPaymentCount db p =
     (Inr (int (length (matching (ID p) (docs db)))), sent (FindCount (ID p)) db)"
  by (simp add: returnPaymentCount_def count_answers)

lemma returnPaymentCount_fault:
  "faults db = Some m # fs \<Longrightarrow>
   returnPaymentCount db p = (Inl (mgo_error m), sent (FindCount (ID p)) db)"
  by (simp add: returnPaymentCount_def count_fault)

lemma returnPaymentCountAndQuery_answers:
  "answers n db \<Longrightarrow> 0 < n \<Longrightarrow>
   returnPaymentCountAndQuery db p =
     (Inr (ID p, int (length (matching (ID p) (docs db)))), sent (FindCount (ID p)) db)"
  by (simp add: returnPaymentCountAndQuery_def count_answers)


lemma one_answers:
  "answers n db \<Longrightarrow> 0 < n \<Longrightarrow> matching i (docs db) = d # ds \<Longrightarrow>
   mgo_One i db = (Inr d, sent (FindOne i) db)"
  by (simp add: mgo_One_def send_answers)


lemma insert_fault:
  "faults db = Some m # fs \<Longrightarrow> mgo_Insert p db = (Some (mgo_error m), sent (InsertOne p) db)"
  by (simp add: mgo_Insert_def send_fault)

lemma remove_answers:
  "answers n db \<Longrightarrow> 0 < n \<Longrightarrow>
   mgo_Remove i db = (None, (sent (RemoveOne i) db)\<lparr>docs := remove_first i (docs db)\<rparr>)"
  by (simp add: mgo_Remove_def send_answers)

lemma update_answers:
  "answers n db \<Longrightarrow> 0 < n \<Longrightarrow>
   mgo_UpdateId i p db = (None, (sent (UpdateOne i p) db)\<lparr>docs := replace_first i p (docs db)\<rparr>)"
  by (simp add: mgo_UpdateId_def send_answers)

lemma answers_docs_update [simp]: "answers n (db\<lparr>docs := ds\<rparr>) = answers n db"
  by (simp add: answers_def)

section \<open>Facts about the lifecycle manager\<close>

text \<open>The four outcomes of \<open>modelGetPayment\<close>.\<close>

lemma modelGetPayment_empty:
  "ID p = [] \<Longrightarrow>
   modelGetPayment p db = ((- 1, zero_Payment, Some (errors_New ''No Payment ID specified'')), db)"
  by (simp add: modelGetPayment_def checkEmptyPaymentID_def)


lemma modelGetPayment_none:
  "ID p \<noteq> [] \<Longrightarrow> answers n db \<Longrightarrow> 0 < n \<Longrightarrow> matching (ID p) (docs db) = [] \<Longrightarrow>
   modelGetPayment p db =
     ((0, zero_Payment, Some (errors_New ''Payment not found'')), sent (FindCount (ID p)) db)"
  by (simp add: modelGetPayment_def checkEmptyPaymentID_def returnPaymentCountAndQuery_answers)

lemma modelGetPayment_many:
  "ID p \<noteq> [] \<Longrightarrow> answers n db \<Longrightarrow> 0 < n \<Longrightarrow> 1 < length (matching (ID p) (docs db)) \<Longrightarrow>
   modelGetPayment p db =
     ((- 1, zero_Payment, Some (errors_New ''More than one payment returned per ID'')),
      sent (FindCount (ID p)) db)"
  by (auto simp: modelGetPayment_def checkEmptyPaymentID_def returnPaymentCountAndQuery_answers)

lemma modelGetPayment_one:
  assumes "ID p \<noteq> []" and "answers n db" and "1 < n" and "matching (ID p) (docs db) = [d]"
  shows "modelGetPayment p db =
     ((1, d, None), sent (FindOne (ID p)) (sent (FindCount (ID p)) db))"
proof -
  have c: "returnPaymentCountAndQuery db p = (Inr (ID p, 1), sent (FindCount (ID p)) db)"
    using assms by (simp add: returnPaymentCountAndQuery_answers)
  have a: "answers (n - 1) (sent (FindCount (ID p)) db)"
    using assms(2) by (rule answers_sent)
  have o: "mgo_One (ID p) (sent (FindCount (ID p)) db) =
      (Inr d, sent (FindOne (ID p)) (sent (FindCount (ID p)) db))"
    using a assms by (simp add: one_answers [where n = "n - 1"])
  show ?thesis
    using assms(1) by (simp add: modelGetPayment_def checkEmptyPaymentID_def c o)
qed

text \<open>The outcomes of the three validity checks.\<close>

lemma createValidCheck_empty:
  "ID p = [] \<Longrightarrow> modelCreatePaymentValidCheck p db =
     (Some (errors_New ''Cannot add a payment without a Payment ID specified''), db)"
  by (simp add: modelCreatePaymentValidCheck_def checkEmptyPaymentID_def)

lemma createValidCheck_fault:
  "ID p \<noteq> [] \<Longrightarrow> faults db = Some m # fs \<Longrightarrow>
   modelCreatePaymentValidCheck p db = (Some (mgo_error m), sent (FindCount (ID p)) db)"
  by (simp add: modelCreatePaymentValidCheck_def checkEmptyPaymentID_def returnPaymentCount_fault)

lemma createValidCheck_exists:
  "ID p \<noteq> [] \<Longrightarrow> answers n db \<Longrightarrow> 0 < n \<Longrightarrow> ID p \<in> set (map ID (docs db)) \<Longrightarrow>
   modelCreatePaymentValidCheck p db =
     (Some (errors_New ''A payment with this Payment ID already exists''),
      sent (FindCount (ID p)) db)"
  using matching_present [of "ID p" "docs db"]
  by (simp add: modelCreatePaymentValidCheck_def checkEmptyPaymentID_def
      returnPaymentCount_answers)

lemma createValidCheck_free:
  "ID p \<noteq> [] \<Longrightarrow> answers n db \<Longrightarrow> 0 < n \<Longrightarrow> ID p \<notin> set (map ID (docs db)) \<Longrightarrow>
   modelCreatePaymentValidCheck p db = (None, sent (FindCount (ID p)) db)"
  by (simp add: modelCreatePaymentValidCheck_def checkEmptyPaymentID_def
      returnPaymentCount_answers matching_absent)

lemma updateValidCheck_empty:
  "ID p = [] \<Longrightarrow> modelUpdatePaymentValidCheck p db =
     (Some (errors_New ''Cannot update a payment without a Payment ID specified''), db)"
  by (simp add: modelUpdatePaymentValidCheck_def checkEmptyPaymentID_def)

lemma updateValidCheck_exists:
  "ID p \<noteq> [] \<Longrightarrow> answers n db \<Longrightarrow> 0 < n \<Longrightarrow> ID p \<in> set (map ID (docs db)) \<Longrightarrow>
   modelUpdatePaymentValidCheck p db = (None, sent (FindCount (ID p)) db)"
  using matching_present [of "ID p" "docs db"]
  by (simp add: modelUpdatePaymentValidCheck_def checkEmptyPaymentID_def
      returnPaymentCount_answers)

lemma deleteValidCheck_empty:
  "ID p = [] \<Longrightarrow> modelDeletePaymentValidCheck p db =
     (Some (errors_New ''Cannot delete a payment without a Payment ID specified''), db)"
  by (simp add: modelDeletePaymentValidCheck_def checkEmptyPaymentID_def)

lemma deleteValidCheck_exists:
  "ID p \<noteq> [] \<Longrightarrow> answers n db \<Longrightarrow> 0 < n \<Longrightarrow> ID p \<in> set (map ID (docs db)) \<Longrightarrow>
   modelDeletePaymentValidCheck p db = (None, sent (FindCount (ID p)) db)"
  using matching_present [of "ID p" "docs db"]
  by (simp add: modelDeletePaymentValidCheck_def checkEmptyPaymentID_def
      returnPaymentCount_answers)

lemma deleteValidCheck_absent:
  "ID p \<noteq> [] \<Longrightarrow> answers n db \<Longrightarrow> 0 < n \<Longrightarrow> ID p \<notin> set (map ID (docs db)) \<Longrightarrow>
   modelDeletePaymentValidCheck p db =
     (Some (errors_New ''A payment with this Payment ID doesn't exists''),
      sent (FindCount (ID p)) db)"
  by (simp add: modelDeletePaymentValidCheck_def checkEmptyPaymentID_def
      returnPaymentCount_answers matching_absent)

lemma ID_zero [simp]: "ID (zero_Payment\<lparr>ID := i\<rparr>) = i"
  by simp

lemma answers_less: "answers n db \<Longrightarrow> m \<le> n \<Longrightarrow> answers m db"
  unfolding answers_def list_all_iff
  by (metis in_set_takeD min.absorb1 take_take)

section \<open>Facts about the dispatcher\<close>

text \<open>The five responses of \<open>getPayment\<close>.\<close>

lemma getPayment_empty:
  "getPayment [] db = (respondWithError StatusInternalServerError ''No Payment ID specified'', db)"
  by (simp add: getPayment_def modelGetPayment_empty)


lemma getPayment_none:
  "i \<noteq> [] \<Longrightarrow> answers n db \<Longrightarrow> 0 < n \<Longrightarrow> matching i (docs db) = [] \<Longrightarrow>
   getPayment i db = (respondWithError StatusNotFound ''Payment not found'', sent (FindCount i) db)"
  by (simp add: getPayment_def modelGetPayment_none)



text \<open>
  The responses of \<open>createPayment\<close> to a body that decodes to the payment \<open>p\<close>:
  400 when the identifier is empty, 400 when a record with the identifier exists, 400
  as well when the count query of the validity check fails (with the store's message),
  and 500 when the count query found nothing and the insert fails.
\<close>

lemma createPayment_responses:
  assumes "Decode b zero_Payment = Some p"
  shows "(ID p = [] \<longrightarrow>
            fst (createPayment b db) =
              respondWithError StatusBadRequest
                ''Cannot add a payment without a Payment ID specified'') \<and>
         (ID p \<noteq> [] \<and> answers 1 db \<and> ID p \<in> set (map ID (docs db)) \<longrightarrow>
            fst (createPayment b db) =
              respondWithError StatusBadRequest
                ''A payment with this Payment ID already exists'') \<and>
         (ID p \<noteq> [] \<and> faults db = Some m # fs \<longrightarrow>
            fst (createPayment b db) = respondWithError StatusBadRequest m) \<and>
         (ID p \<noteq> [] \<and> ID p \<notin> set (map ID (docs db)) \<and> faults db = None # Some m # fs \<longrightarrow>
            fst (createPayment b db) = respondWithError StatusInternalServerError m)"
proof -
  have empty: "fst (createPayment b db) =
      respondWithError StatusBadRequest ''Cannot add a payment without a Payment ID specified''"
    if "ID p = []"
    using that by (simp add: createPayment_def assms createValidCheck_empty)
  have exists: "fst (createPayment b db) =
      respondWithError StatusBadRequest ''A payment with this Payment ID already exists''"
    if "ID p \<noteq> []" "answers 1 db" "ID p \<in> set (map ID (docs db))"
    using that by (simp add: createPayment_def assms createValidCheck_exists)
  have count: "fst (createPayment b db) = respondWithError StatusBadRequest m"
    if "ID p \<noteq> []" "faults db = Some m # fs"
    using that by (simp add: createPayment_def assms createValidCheck_fault)
  have ins: "fst (createPayment b db) = respondWithError StatusInternalServerError m"
    if h: "ID p \<noteq> []" "ID p \<notin> set (map ID (docs db))" "faults db = None # Some m # fs"
  proof -
    have a: "answers 1 db"
      using h(3) by (simp add: answers_def)
    have v: "modelCreatePaymentValidCheck p db = (None, sent (FindCount (ID p)) db)"
      using h a by (simp add: createValidCheck_free)
    have f: "faults (sent (FindCount (ID p)) db) = Some m # fs"
      using h(3) by simp
    have c: "modelCreatePayment p (sent (FindCount (ID p)) db) =
        (Some (mgo_error m), sent (InsertOne p) (sent (FindCount (ID p)) db))"
      unfolding modelCreatePayment_def using f by (rule insert_fault)
    show ?thesis
      by (simp add: createPayment_def assms v c)
  qed
  show ?thesis
    using empty exists count ins by blast
qed


section \<open>At most one record per identifier\<close>

text \<open>
  Reading never changes the stored records, and no handler breaks the invariant of the
  data model that the stored identifiers are distinct: \<open>createPayment\<close> inserts only
  after the count was zero and the store rejects a second record under a key,
  \<open>updatePayment\<close> replaces a record by one with the same identifier, and
  \<open>deletePayment\<close> only removes.
\<close>

lemma docs_send [simp]: "docs (snd (send r db)) = docs db"
  by (simp add: send_def)

lemma insert_keeps_distinct:
  "distinct (map ID (docs db)) \<Longrightarrow> distinct (map ID (docs (snd (mgo_Insert p db))))"
  by (auto simp: mgo_Insert_def send_def matching_Nil_iff split: option.splits list.splits)

lemma count_keeps_docs: "docs (snd (mgo_Count i db)) = docs db"
  by (simp add: mgo_Count_def send_def split: option.splits list.splits)

lemma one_keeps_docs: "docs (snd (mgo_One i db)) = docs db"
  by (simp add: mgo_One_def send_def split: option.splits list.splits)

lemma all_keeps_docs: "docs (snd (mgo_All db)) = docs db"
  by (simp add: mgo_All_def send_def split: option.splits list.splits)

lemma remove_keeps_distinct:
  "distinct (map ID (docs db)) \<Longrightarrow> distinct (map ID (docs (snd (mgo_Remove i db))))"
  by (auto simp: mgo_Remove_def send_def distinct_remove_first split: option.splits list.splits)

lemma update_keeps_distinct:
  "distinct (map ID (docs db)) \<Longrightarrow>
   distinct (map ID (docs (snd (mgo_UpdateId (ID p) p db))))"
  by (auto simp: mgo_UpdateId_def send_def map_ID_replace_first split: option.splits list.splits)

lemma returnPaymentCount_keeps_docs: "docs (snd (returnPaymentCount db p)) = docs db"
  using count_keeps_docs [of "ID p" db]
  by (auto simp: returnPaymentCount_def split: prod.splits sum.splits)

lemma createValidCheck_keeps_docs: "docs (snd (modelCreatePaymentValidCheck p db)) = docs db"
  using returnPaymentCount_keeps_docs [of db p]
  by (auto simp: modelCreatePaymentValidCheck_def split: prod.splits sum.splits)

lemma updateValidCheck_keeps_docs: "docs (snd (modelUpdatePaymentValidCheck p db)) = docs db"
  using returnPaymentCount_keeps_docs [of db p]
  by (auto simp: modelUpdatePaymentValidCheck_def split: prod.splits sum.splits)

lemma deleteValidCheck_keeps_docs: "docs (snd (modelDeletePaymentValidCheck p db)) = docs db"
  using returnPaymentCount_keeps_docs [of db p]
  by (auto simp: modelDeletePaymentValidCheck_def split: prod.splits sum.splits)

lemma modelGetPayment_keeps_docs: "docs (snd (modelGetPayment p db)) = docs db"
proof -
  have "docs (snd (mgo_One i (snd (mgo_Count j db)))) = docs db" for i j
    by (simp add: one_keeps_docs count_keeps_docs)
  then show ?thesis
    using count_keeps_docs [of "ID p" db]
    by (auto simp: modelGetPayment_def returnPaymentCountAndQuery_def
        split: prod.splits sum.splits) (metis snd_conv)+
qed

lemma getPayment_keeps_docs: "docs (snd (getPayment i db)) = docs db"
  using modelGetPayment_keeps_docs [of "zero_Payment\<lparr>ID := i\<rparr>" db]
  by (auto simp: getPayment_def split: prod.splits option.splits)

lemma getPayments_keeps_docs: "docs (snd (getPayments db)) = docs db"
  using all_keeps_docs [of db]
  by (auto simp: getPayments_def modelGetPayments_def split: prod.splits option.splits sum.splits)

lemma createPayment_keeps_distinct:
  assumes "distinct (map ID (docs db))"
  shows "distinct (map ID (docs (snd (createPayment b db))))"
proof (cases "Decode b zero_Payment")
  case None
  then show ?thesis using assms by (simp add: createPayment_def)
next
  case (Some p)
  obtain e1 db1 where v: "modelCreatePaymentValidCheck p db = (e1, db1)"
    by (cases "modelCreatePaymentValidCheck p db")
  have d1: "distinct (map ID (docs db1))"
    using assms createValidCheck_keeps_docs [of p db] v by simp
  have "distinct (map ID (docs (snd (modelCreatePayment p db1))))"
    unfolding modelCreatePayment_def using d1 by (rule insert_keeps_distinct)
  then show ?thesis
    using d1 by (auto simp: createPayment_def Some v split: option.splits prod.splits)
qed

lemma updatePayment_keeps_distinct:
  assumes "distinct (map ID (docs db))"
  shows "distinct (map ID (docs (snd (updatePayment i b db))))"
proof (cases "Decode b (zero_Payment\<lparr>ID := i\<rparr>)")
  case None
  then show ?thesis using assms by (simp add: updatePayment_def)
next
  case (Some p)
  obtain e1 db1 where v: "modelUpdatePaymentValidCheck p db = (e1, db1)"
    by (cases "modelUpdatePaymentValidCheck p db")
  have d1: "distinct (map ID (docs db1))"
    using assms updateValidCheck_keeps_docs [of p db] v by simp
  have "distinct (map ID (docs (snd (modelUpdatePayment p db1))))"
    unfolding modelUpdatePayment_def using d1 by (rule update_keeps_distinct)
  then show ?thesis
    using d1 by (auto simp: updatePayment_def Some v split: option.splits prod.splits)
qed

lemma deletePayment_keeps_distinct:
  assumes "distinct (map ID (docs db))"
  shows "distinct (map ID (docs (snd (deletePayment i db))))"
proof -
  let ?p = "zero_Payment\<lparr>ID := i\<rparr>"
  obtain e1 db1 where v: "modelDeletePaymentValidCheck ?p db = (e1, db1)"
    by (cases "modelDeletePaymentValidCheck ?p db")
  have d1: "distinct (map ID (docs db1))"
    using assms deleteValidCheck_keeps_docs [of ?p db] v by simp
  have "distinct (map ID (docs (snd (modelDeletePayment ?p db1))))"
    unfolding modelDeletePayment_def using d1 by (rule remove_keeps_distinct)
  then show ?thesis
    using d1 by (auto simp: deletePayment_def v split: option.splits prod.splits)
qed

section \<open>The claims\<close>

text \<open>
  In the theorems below the hypothesis \<open>answers n db\<close> says that the store is available
  for the \<open>n\<close> requests that the operations in question send; what happens when a
  request fails is the subject of C4 and C5. The hypothesis
  \<open>distinct (map ID (docs db))\<close> is the invariant of the data model, kept by every
  handler (see above).
\<close>



text \<open>
  C2: for every payment \<open>p\<close> with a non-empty identifier, if the store already holds a
  record with that identifier, the validity check of create fails with the error
  "A payment with this Payment ID already exists", \<open>createPayment\<close> answers 400 with
  that message, and the stored records after the call are those before it: the count
  query is the only request sent.
\<close>

theorem create_existing_rejected:
  assumes "ID p \<noteq> []" and "ID p \<in> set (map ID (docs db))" and "answers 1 db"
  shows "fst (modelCreatePaymentValidCheck p db) =
           Some (errors_New ''A payment with this Payment ID already exists'') \<and>
         docs (snd (modelCreatePaymentValidCheck p db)) = docs db \<and>
         fst (createPayment (Object (Some (ID p)) p) db) =
           respondWithError StatusBadRequest ''A payment with this Payment ID already exists'' \<and>
         docs (snd (createPayment (Object (Some (ID p)) p) db)) = docs db \<and>
         requests (snd (createPayment (Object (Some (ID p)) p) db)) =
           requests db @ [FindCount (ID p)]"
proof -
  have v: "modelCreatePaymentValidCheck p db =
      (Some (errors_New ''A payment with this Payment ID already exists''),
       sent (FindCount (ID p)) db)"
    using assms by (simp add: createValidCheck_exists)
  have d: "Decode (Object (Some (ID p)) p) zero_Payment = Some p"
    by (simp add: Decode_def)
  show ?thesis
    by (simp add: v d createPayment_def)
qed

text \<open>C2 at the test payload, posted a second time.\<close>

theorem create_existing_rejected_witness:
  "ID payload \<noteq> [] \<and>
   ID payload \<in> set (map ID (docs (empty_store\<lparr>docs := [payload]\<rparr>))) \<and>
   answers 1 (empty_store\<lparr>docs := [payload]\<rparr>) \<and>
   fst (createPayment (Object (Some (ID payload)) payload)
          (empty_store\<lparr>docs := [payload]\<rparr>)) =
     respondWithError StatusBadRequest ''A payment with this Payment ID already exists'' \<and>
   docs (snd (createPayment (Object (Some (ID payload)) payload)
                (empty_store\<lparr>docs := [payload]\<rparr>))) = [payload]"
proof -
  have h1: "ID payload \<noteq> []"
    by (simp add: payload_def)
  have h2: "ID payload \<in> set (map ID (docs (empty_store\<lparr>docs := [payload]\<rparr>)))"
    by simp
  have h3: "answers 1 (empty_store\<lparr>docs := [payload]\<rparr>)"
    by (simp add: answers_def empty_store_def)
  show ?thesis
    using h1 h2 h3 create_existing_rejected [OF h1 h2 h3] by simp
qed






text \<open>
  C5: \<open>createPayment\<close> is to answer every validation failure and every existing
  identifier with 400 and every store failure with 500, a failure of the existence
  count query included. The first half holds and a failing insert is answered with 500
  (\<open>createPayment_responses\<close>), but a failure of the count query is not: posting the
  test payload to a store that cannot be reached is answered with 400 and the store's
  message, not with 500.
\<close>

theorem createPayment_count_failure:
  "fst (createPayment (Object (Some (ID payload)) payload)
          (empty_store\<lparr>faults := [Some ''no reachable servers'']\<rparr>)) =
     respondWithError StatusBadRequest ''no reachable servers'' \<and>
   code (fst (createPayment (Object (Some (ID payload)) payload)
          (empty_store\<lparr>faults := [Some ''no reachable servers'']\<rparr>))) = 400 \<and>
   StatusInternalServerError = 500"
proof -
  let ?db = "empty_store\<lparr>faults := [Some ''no reachable servers'']\<rparr>"
  have d: "Decode (Object (Some (ID payload)) payload) zero_Payment = Some payload"
    by (simp add: Decode_def)
  have n: "ID payload \<noteq> []"
    by (simp add: payload_def)
  have f: "faults ?db = Some ''no reachable servers'' # []"
    by simp
  have v: "modelCreatePaymentValidCheck payload ?db =
      (Some (mgo_error ''no reachable servers''), sent (FindCount (ID payload)) ?db)"
    using n f by (rule createValidCheck_fault)
  show ?thesis
    by (simp add: createPayment_def d v respondWithError_def respondWithJSON_def
        StatusBadRequest_def StatusInternalServerError_def)
qed

text \<open>
  C6: for every non-empty identifier and a store that answers, the store reports the
  number of records under the identifier, and \<open>modelGetPayment\<close> fails with
  "Payment not found" exactly when that number is zero, fails with
  "More than one payment returned per ID" exactly when it is more than one, and
  otherwise returns the one matching record with a nil error.
\<close>

theorem get_outcome_by_count:
  assumes "ID p \<noteq> []" and "answers 2 db"
  shows "fst (mgo_Count (ID p) db) = Inr (int (length (matching (ID p) (docs db)))) \<and>
         (snd (snd (fst (modelGetPayment p db))) = Some (errors_New ''Payment not found'')
            \<longleftrightarrow> length (matching (ID p) (docs db)) = 0) \<and>
         (snd (snd (fst (modelGetPayment p db))) =
            Some (errors_New ''More than one payment returned per ID'')
            \<longleftrightarrow> 1 < length (matching (ID p) (docs db))) \<and>
         (\<forall>d. matching (ID p) (docs db) = [d] \<longrightarrow>
            fst (modelGetPayment p db) = (1, d, None))"
proof -
  have k: "fst (mgo_Count (ID p) db) = Inr (int (length (matching (ID p) (docs db))))"
    using assms(2) by (simp add: count_answers)
  consider (none) "matching (ID p) (docs db) = []"
    | (one) d where "matching (ID p) (docs db) = [d]"
    | (many) "1 < length (matching (ID p) (docs db))"
    by (cases "matching (ID p) (docs db)" rule: list.exhaust; simp)
       (metis One_nat_def Suc_lessI length_Cons length_greater_0_conv list.size(3) neq_Nil_conv)
  then show ?thesis
  proof cases
    case none
    then show ?thesis
      using assms k modelGetPayment_none [of p 2 db] by simp
  next
    case one
    then show ?thesis
      using assms k modelGetPayment_one [of p 2 db d] by simp
  next
    case many
    then show ?thesis
      using assms k modelGetPayment_many [of p 2 db] by auto
  qed
qed

text \<open>C6 on the collection that holds the test payload, and on the empty one.\<close>

theorem get_outcome_by_count_witness:
  "ID payload \<noteq> [] \<and> answers 2 (empty_store\<lparr>docs := [payload]\<rparr>) \<and>
   matching (ID payload) (docs (empty_store\<lparr>docs := [payload]\<rparr>)) = [payload] \<and>
   fst (modelGetPayment payload (empty_store\<lparr>docs := [payload]\<rparr>)) = (1, payload, None) \<and>
   answers 2 empty_store \<and>
   length (matching (ID payload) (docs empty_store)) = 0 \<and>
   snd (snd (fst (modelGetPayment payload empty_store))) =
     Some (errors_New ''Payment not found'')"
proof -
  have h1: "ID payload \<noteq> []"
    by (simp add: payload_def)
  have h2: "answers 2 (empty_store\<lparr>docs := ds\<rparr>)" for ds
    by (simp add: answers_def empty_store_def)
  have h3: "answers 2 empty_store"
    by (simp add: answers_def empty_store_def)
  have m1: "matching (ID payload) (docs (empty_store\<lparr>docs := [payload]\<rparr>)) = [payload]"
    by (simp add: matching_def)
  have m0: "length (matching (ID payload) (docs empty_store)) = 0"
    by (simp add: matching_def empty_store_def)
  have one: "fst (modelGetPayment payload (empty_store\<lparr>docs := [payload]\<rparr>)) =
      (1, payload, None)"
    using get_outcome_by_count [OF h1 h2, of "[payload]"] m1 by blast
  have none: "snd (snd (fst (modelGetPayment payload empty_store))) =
      Some (errors_New ''Payment not found'')"
    using get_outcome_by_count [OF h1 h3] m0 by blast
  show ?thesis
    using h1 h2 h3 m1 m0 one none by blast
qed

text \<open>
  C7: for every non-empty identifier that the store holds (once, by the invariant of the
  data model), \<open>deletePayment\<close> answers 200 with the success acknowledgement and the
  identifier is no longer in the store; a following \<open>getPayment\<close> answers 404 with
  "Payment not found", and a second \<open>deletePayment\<close> answers 404 with the error of a
  payment that does not exist.
\<close>

theorem delete_then_absent:
  assumes "i \<noteq> []" and "i \<in> set (map ID (docs db))"
    and "distinct (map ID (docs db))" and "answers 4 db"
  shows "(let (r1, db1) = deletePayment i db;
              (r2, db2) = getPayment i db1;
              (r3, db3) = deletePayment i db2
          in r1 = respondWithJSON StatusOK (MapJSON [(''result'', ''success'')]) \<and>
             i \<notin> set (map ID (docs db1)) \<and>
             r2 = respondWithError StatusNotFound ''Payment not found'' \<and>
             r3 = respondWithError StatusNotFound
                    ''A payment with this Payment ID doesn't exists'')"
proof -
  let ?p = "zero_Payment\<lparr>ID := i\<rparr>"
  let ?db0 = "sent (FindCount i) db"
  let ?db1 = "(sent (RemoveOne i) ?db0)\<lparr>docs := remove_first i (docs db)\<rparr>"
  let ?db2 = "sent (FindCount i) ?db1"
  have c: "modelDeletePaymentValidCheck ?p db = (None, ?db0)"
    using assms deleteValidCheck_exists [of ?p 4 db] by simp
  have a0: "answers 3 ?db0"
    using answers_sent [OF assms(4)] by simp
  have r: "modelDeletePayment ?p ?db0 = (None, ?db1)"
    using a0 by (simp add: modelDeletePayment_def remove_answers)
  have d1: "deletePayment i db =
      (respondWithJSON StatusOK (MapJSON [(''result'', ''success'')]), ?db1)"
    by (simp add: deletePayment_def c r)
  have a1: "answers 2 ?db1"
    using answers_sent [OF a0] by simp
  have gone: "i \<notin> set (map ID (docs ?db1))"
    using assms(3) remove_first_absent [of "docs db" i] by simp
  then have m: "matching i (docs ?db1) = []"
    by (rule matching_absent)
  have g: "getPayment i ?db1 =
      (respondWithError StatusNotFound ''Payment not found'', ?db2)"
    using assms(1) a1 m by (simp add: getPayment_none)
  have a2: "answers 1 ?db2"
    using answers_sent [OF a1] by simp
  have gone2: "ID ?p \<notin> set (map ID (docs ?db2))"
    using gone by simp
  have c2: "modelDeletePaymentValidCheck ?p ?db2 =
      (Some (errors_New ''A payment with this Payment ID doesn't exists''),
       sent (FindCount i) ?db2)"
    using assms(1) a2 gone2 deleteValidCheck_absent [of ?p 1 ?db2] by simp
  have d2: "deletePayment i ?db2 =
      (respondWithError StatusNotFound ''A payment with this Payment ID doesn't exists'',
       sent (FindCount i) ?db2)"
    by (simp add: deletePayment_def c2)
  show ?thesis
    using gone by (simp add: d1 g d2)
qed

text \<open>C7 on the collection that holds the test payload.\<close>

theorem delete_then_absent_witness:
  "ID payload \<noteq> [] \<and>
   ID payload \<in> set (map ID (docs (empty_store\<lparr>docs := [payload]\<rparr>))) \<and>
   distinct (map ID (docs (empty_store\<lparr>docs := [payload]\<rparr>))) \<and>
   answers 4 (empty_store\<lparr>docs := [payload]\<rparr>) \<and>
   (let (r1, db1) = deletePayment (ID payload) (empty_store\<lparr>docs := [payload]\<rparr>);
        (r2, db2) = getPayment (ID payload) db1;
        (r3, db3) = deletePayment (ID payload) db2
    in r1 = respondWithJSON StatusOK (MapJSON [(''result'', ''success'')]) \<and>
       ID payload \<notin> set (map ID (docs db1)) \<and>
       r2 = respondWithError StatusNotFound ''Payment not found'' \<and>
       r3 = respondWithError StatusNotFound
              ''A payment with this Payment ID doesn't exists'')"
proof -
  have h1: "ID payload \<noteq> []"
    by (simp add: payload_def)
  have h2: "ID payload \<in> set (map ID (docs (empty_store\<lparr>docs := [payload]\<rparr>)))"
    by simp
  have h3: "distinct (map ID (docs (empty_store\<lparr>docs := [payload]\<rparr>)))"
    by simp
  have h4: "answers 4 (empty_store\<lparr>docs := [payload]\<rparr>)"
    by (simp add: answers_def empty_store_def)
  show ?thesis
    using h1 h2 h3 h4 delete_then_absent [OF h1 h2 h3 h4] by blast
qed

text \<open>
  C8: when the store answers, \<open>getPayments\<close> answers 200 with the stored records as
  the data and the fixed link; on an empty store the data is the empty slice
  (\<open>Some []\<close>, not the nil slice \<open>None\<close>); and whatever the state of the store, a
  collection that \<open>getPayments\<close> answers with has that link.
\<close>

theorem list_link_constant:
  "(answers 1 db \<longrightarrow>
      fst (getPayments db) =
        respondWithJSON StatusOK
          (PaymentsJSON \<lparr>P = Some (docs db),
             Links = \<lparr>Self = ''https://api.test.form3.tech/v1/payments''\<rparr>\<rparr>)) \<and>
   (answers 1 db \<and> docs db = [] \<longrightarrow>
      fst (getPayments db) =
        respondWithJSON StatusOK
          (PaymentsJSON \<lparr>P = Some [],
             Links = \<lparr>Self = ''https://api.test.form3.tech/v1/payments''\<rparr>\<rparr>)) \<and>
   (\<forall>ps. body (fst (getPayments db)) = PaymentsJSON ps \<longrightarrow>
      Self (Links ps) = ''https://api.test.form3.tech/v1/payments'')"
proof -
  have ok: "fst (getPayments db) =
      respondWithJSON StatusOK
        (PaymentsJSON \<lparr>P = Some (docs db),
           Links = \<lparr>Self = ''https://api.test.form3.tech/v1/payments''\<rparr>\<rparr>)"
    if "answers 1 db"
    using that
    by (simp add: getPayments_def modelGetPayments_def mgo_All_def send_answers
        zero_Payments_def)
  have link: "Self (Links ps) = ''https://api.test.form3.tech/v1/payments''"
    if "body (fst (getPayments db)) = PaymentsJSON ps" for ps
    using that
    by (auto simp: getPayments_def modelGetPayments_def mgo_All_def send_def
        zero_Payments_def respondWithJSON_def respondWithError_def
        split: list.splits option.splits)
  show ?thesis
    using ok link by auto
qed

text \<open>C8 on the empty collection.\<close>

theorem list_link_constant_witness:
  "answers 1 empty_store \<and> docs empty_store = [] \<and>
   fst (getPayments empty_store) =
     respondWithJSON StatusOK
       (PaymentsJSON \<lparr>P = Some [],
          Links = \<lparr>Self = ''https://api.test.form3.tech/v1/payments''\<rparr>\<rparr>) \<and>
   Self (Links \<lparr>P = Some [],
          Links = \<lparr>Self = ''https://api.test.form3.tech/v1/payments''\<rparr>\<rparr>) =
     ''https://api.test.form3.tech/v1/payments''"
proof -
  have h1: "answers 1 empty_store"
    by (simp add: answers_def empty_store_def)
  have h2: "docs empty_store = []"
    by (simp add: empty_store_def)
  have r: "fst (getPayments empty_store) =
     respondWithJSON StatusOK
       (PaymentsJSON \<lparr>P = Some [],
          Links = \<lparr>Self = ''https://api.test.form3.tech/v1/payments''\<rparr>\<rparr>)"
    using list_link_constant [of empty_store] h1 h2 by blast
  have b: "body (fst (getPayments empty_store)) =
      PaymentsJSON \<lparr>P = Some [],
          Links = \<lparr>Self = ''https://api.test.form3.tech/v1/payments''\<rparr>\<rparr>"
    by (simp add: r respondWithJSON_def)
  have l: "Self (Links \<lparr>P = Some [],
          Links = \<lparr>Self = ''https://api.test.form3.tech/v1/payments''\<rparr>\<rparr>) =
     ''https://api.test.form3.tech/v1/payments''"
    using list_link_constant [of empty_store] b by blast
  show ?thesis
    using h1 h2 r l by blast
qed

text \<open>
  C9: when the identifier of the payment is empty, get and the validity checks of
  create, update and delete return their error and the database as it was: the stored
  records are the same and no request was sent to the store. The handlers stop there:
  \<open>getPayment\<close> and \<open>deletePayment\<close> with an empty identifier, and \<open>createPayment\<close> and
  \<open>updatePayment\<close> with a body that decodes to a payment without identifier, return
  the database as it was and never reach the insert, the update or the remove.
\<close>

theorem empty_id_sends_nothing:
  assumes "ID p = []"
  shows "modelGetPayment p db =
           ((- 1, zero_Payment, Some (errors_New ''No Payment ID specified'')), db) \<and>
         modelCreatePaymentValidCheck p db =
           (Some (errors_New ''Cannot add a payment without a Payment ID specified''), db) \<and>
         modelUpdatePaymentValidCheck p db =
           (Some (errors_New ''Cannot update a payment without a Payment ID specified''), db) \<and>
         modelDeletePaymentValidCheck p db =
           (Some (errors_New ''Cannot delete a payment without a Payment ID specified''), db) \<and>
         getPayment [] db =
           (respondWithError StatusInternalServerError ''No Payment ID specified'', db) \<and>
         deletePayment [] db =
           (respondWithError StatusNotFound
              ''Cannot delete a payment without a Payment ID specified'', db) \<and>
         (\<forall>b. Decode b zero_Payment = Some p \<longrightarrow>
            createPayment b db =
              (respondWithError StatusBadRequest
                 ''Cannot add a payment without a Payment ID specified'', db)) \<and>
         (\<forall>b v. Decode b (zero_Payment\<lparr>ID := v\<rparr>) = Some p \<longrightarrow>
            updatePayment v b db =
              (respondWithError StatusNotFound
                 ''Cannot update a payment without a Payment ID specified'', db))"
proof -
  have z: "ID (zero_Payment\<lparr>ID := []\<rparr>) = []"
    by simp
  have del: "deletePayment [] db =
      (respondWithError StatusNotFound
         ''Cannot delete a payment without a Payment ID specified'', db)"
    by (simp add: deletePayment_def deleteValidCheck_empty [OF z])
  show ?thesis
    using assms
    by (simp add: modelGetPayment_empty createValidCheck_empty updateValidCheck_empty
        deleteValidCheck_empty getPayment_empty del createPayment_def updatePayment_def)
qed

text \<open>
  C9 at the body of the test that has an empty identifier, on the collection that holds
  the test payload.
\<close>

theorem empty_id_sends_nothing_witness:
  "ID (zero_Payment\<lparr>Type := ''Payment''\<rparr>) = [] \<and>
   modelGetPayment (zero_Payment\<lparr>Type := ''Payment''\<rparr>) (empty_store\<lparr>docs := [payload]\<rparr>) =
     ((- 1, zero_Payment, Some (errors_New ''No Payment ID specified'')),
      empty_store\<lparr>docs := [payload]\<rparr>) \<and>
   createPayment (Object (Some []) (zero_Payment\<lparr>Type := ''Payment''\<rparr>))
       (empty_store\<lparr>docs := [payload]\<rparr>) =
     (respondWithError StatusBadRequest
        ''Cannot add a payment without a Payment ID specified'',
      empty_store\<lparr>docs := [payload]\<rparr>) \<and>
   updatePayment ''11'' (Object (Some []) (zero_Payment\<lparr>Type := ''Payment''\<rparr>))
       (empty_store\<lparr>docs := [payload]\<rparr>) =
     (respondWithError StatusNotFound
        ''Cannot update a payment without a Payment ID specified'',
      empty_store\<lparr>docs := [payload]\<rparr>) \<and>
   deletePayment [] (empty_store\<lparr>docs := [payload]\<rparr>) =
     (respondWithError StatusNotFound
        ''Cannot delete a payment without a Payment ID specified'',
      empty_store\<lparr>docs := [payload]\<rparr>)"
proof -
  let ?q = "zero_Payment\<lparr>Type := ''Payment''\<rparr>"
  let ?db = "empty_store\<lparr>docs := [payload]\<rparr>"
  have h: "ID ?q = []"
    by (simp add: zero_Payment_def)
  have d1: "Decode (Object (Some []) ?q) zero_Payment = Some ?q"
    by (simp add: Decode_def zero_Payment_def)
  have d2: "Decode (Object (Some []) ?q) (zero_Payment\<lparr>ID := ''11''\<rparr>) = Some ?q"
    by (simp add: Decode_def zero_Payment_def)
  note t = empty_id_sends_nothing [OF h, of ?db]
  have g: "modelGetPayment ?q ?db =
      ((- 1, zero_Payment, Some (errors_New ''No Payment ID specified'')), ?db)"
    using t by blast
  have c: "createPayment (Object (Some []) ?q) ?db =
      (respondWithError StatusBadRequest
         ''Cannot add a payment without a Payment ID specified'', ?db)"
    using t d1 by blast
  have u: "updatePayment ''11'' (Object (Some []) ?q) ?db =
      (respondWithError StatusNotFound
         ''Cannot update a payment without a Payment ID specified'', ?db)"
    using t d2 by blast
  have r: "deletePayment [] ?db =
      (respondWithError StatusNotFound
         ''Cannot delete a payment without a Payment ID specified'', ?db)"
    using t by blast
  show ?thesis
    using h g c u r by blast
qed

text \<open>
  C10: when the body of a PUT has an identifier member, \<open>updatePayment\<close> does the same
  whatever the path variable is; a body whose identifier is empty is answered with the
  error of the validity check and nothing is sent to the store, whatever the path
  variable is; and for a body with the non-empty identifier \<open>i\<close> of a stored record,
  the count query and the update are both sent with the key \<open>i\<close>, the record under
  \<open>i\<close> is replaced by the body, and the records under a path variable other than
  \<open>i\<close> stay as they were.
\<close>

theorem update_body_id_overrides_path:
  "updatePayment v (Object (Some i) q) db = updatePayment w (Object (Some i) q) db \<and>
   updatePayment v (Object (Some []) q) db =
     (respondWithError StatusNotFound
        ''Cannot update a payment without a Payment ID specified'', db) \<and>
   (i \<noteq> [] \<and> i \<in> set (map ID (docs db)) \<and> answers 2 db \<longrightarrow>
      fst (updatePayment v (Object (Some i) q) db) =
        respondWithJSON StatusOK (PaymentJSON (q\<lparr>ID := i\<rparr>)) \<and>
      requests (snd (updatePayment v (Object (Some i) q) db)) =
        requests db @ [FindCount i, UpdateOne i (q\<lparr>ID := i\<rparr>)] \<and>
      docs (snd (updatePayment v (Object (Some i) q) db)) =
        replace_first i (q\<lparr>ID := i\<rparr>) (docs db) \<and>
      (v \<noteq> i \<longrightarrow>
         matching v (docs (snd (updatePayment v (Object (Some i) q) db))) =
           matching v (docs db)))"
proof -
  let ?p = "q\<lparr>ID := i\<rparr>"
  have d: "Decode (Object (Some i) q) (zero_Payment\<lparr>ID := u\<rparr>) = Some ?p" for u
    by (simp add: Decode_def)
  have path: "updatePayment v (Object (Some i) q) db = updatePayment w (Object (Some i) q) db"
    by (simp add: updatePayment_def d)
  have empty: "updatePayment v (Object (Some []) q) db =
     (respondWithError StatusNotFound
        ''Cannot update a payment without a Payment ID specified'', db)"
    by (simp add: updatePayment_def Decode_def updateValidCheck_empty)
  have keyed: "updatePayment v (Object (Some i) q) db =
      (respondWithJSON StatusOK (PaymentJSON ?p),
       (sent (UpdateOne i ?p) (sent (FindCount i) db))\<lparr>docs := replace_first i ?p (docs db)\<rparr>)"
    if h: "i \<noteq> []" "i \<in> set (map ID (docs db))" "answers 2 db"
  proof -
    have c: "modelUpdatePaymentValidCheck ?p db = (None, sent (FindCount i) db)"
      using h updateValidCheck_exists [of ?p 2 db] by simp
    have a: "answers 1 (sent (FindCount i) db)"
      using answers_sent [OF h(3)] by simp
    have u: "modelUpdatePayment ?p (sent (FindCount i) db) =
        (None, (sent (UpdateOne i ?p) (sent (FindCount i) db))
                 \<lparr>docs := replace_first i ?p (docs db)\<rparr>)"
      using a by (simp add: modelUpdatePayment_def update_answers)
    show ?thesis
      by (simp add: updatePayment_def d c u)
  qed
  have other: "matching v (replace_first i ?p (docs db)) = matching v (docs db)" if "v \<noteq> i"
    using that matching_replace_first_other [of v ?p "docs db"] by simp
  show ?thesis
    using path empty keyed other by simp
qed

text \<open>
  C10 at the request \<open>PUT /payment/123\<close> with the second test payload as the body, on
  the collection that holds the first.
\<close>

theorem update_body_id_overrides_path_witness:
  "ID payload2 \<noteq> [] \<and>
   ID payload2 \<in> set (map ID (docs (empty_store\<lparr>docs := [payload]\<rparr>))) \<and>
   answers 2 (empty_store\<lparr>docs := [payload]\<rparr>) \<and>
   ''123'' \<noteq> ID payload2 \<and>
   fst (updatePayment ''123'' (Object (Some (ID payload2)) payload2)
          (empty_store\<lparr>docs := [payload]\<rparr>)) =
     respondWithJSON StatusOK (PaymentJSON payload2) \<and>
   requests (snd (updatePayment ''123'' (Object (Some (ID payload2)) payload2)
                    (empty_store\<lparr>docs := [payload]\<rparr>))) =
     [FindCount (ID payload2), UpdateOne (ID payload2) payload2] \<and>
   docs (snd (updatePayment ''123'' (Object (Some (ID payload2)) payload2)
                (empty_store\<lparr>docs := [payload]\<rparr>))) = [payload2]"
proof -
  let ?db = "empty_store\<lparr>docs := [payload]\<rparr>"
  have h1: "ID payload2 \<noteq> []"
    by (simp add: payload2_def payload_def)
  have same: "ID payload = ID payload2"
    by (simp add: payload2_def)
  have h2: "ID payload2 \<in> set (map ID (docs ?db))"
    by (simp add: same)
  have h3: "answers 2 ?db"
    by (simp add: answers_def empty_store_def)
  have h4: "''123'' \<noteq> ID payload2"
    by (simp add: payload2_def payload_def)
  have q: "payload2\<lparr>ID := ID payload2\<rparr> = payload2"
    by simp
  have rq: "requests ?db = []"
    by (simp add: empty_store_def)
  have rp: "replace_first (ID payload2) payload2 (docs ?db) = [payload2]"
    by (simp add: same)
  note t = update_body_id_overrides_path [of "''123''" "ID payload2" payload2 ?db]
  have "fst (updatePayment ''123'' (Object (Some (ID payload2)) payload2) ?db) =
        respondWithJSON StatusOK (PaymentJSON (payload2\<lparr>ID := ID payload2\<rparr>)) \<and>
      requests (snd (updatePayment ''123'' (Object (Some (ID payload2)) payload2) ?db)) =
        requests ?db @ [FindCount (ID payload2),
          UpdateOne (ID payload2) (payload2\<lparr>ID := ID payload2\<rparr>)] \<and>
      docs (snd (updatePayment ''123'' (Object (Some (ID payload2)) payload2) ?db)) =
        replace_first (ID payload2) (payload2\<lparr>ID := ID payload2\<rparr>) (docs ?db)"
    using t h1 h2 h3 by blast
  then show ?thesis
    using h1 h2 h3 h4 by (simp only: q rq rp append_Nil simp_thms)
qed

end
